theory Spec2Isabelle
  imports Main "HOL-Library.Word" "HOL-Library.Sublist" "HOL-Library.Char_ord"
    "HOL-Library.List_Lexorder" "HOL-Library.Product_Lexorder" "HOL-Library.Multiset"
begin

section \<open>The printer: outcomes, environments, renderable cells\<close>

text \<open>
  Go strings are byte sequences; a \<^typ>\<open>string\<close> is a list of 8-bit characters, so a
  non-ASCII glyph is written as its UTF-8 bytes and an escape byte by its code.
\<close>

type_synonym color = int

definition red :: color where "red = 31"
definition green :: color where "green = 32"
definition purple :: color where "purple = 35"
definition none :: color where "none = 0"

text \<open>\<^verbatim>\<open>type Outcome uint8\<close> with the constants \<^verbatim>\<open>None, Up, Down, Err\<close> = 0, 1, 2, 3.\<close>

type_synonym Outcome = "8 word"

definition None_outcome :: Outcome where "None_outcome = 0"
definition Up :: Outcome where "Up = 1"
definition Down :: Outcome where "Down = 2"
definition Err :: Outcome where "Err = 3"

record Env =
  IsTerminal :: bool
  OutputFormat :: string

text \<open>A \<^verbatim>\<open>panic(msg)\<close> of the source is the value \<open>Inl (Panic msg)\<close>.\<close>

datatype panic = Panic string

text \<open>The glyphs of \<^verbatim>\<open>humanreadableAccessCode\<close>: U+2714 and U+2716 in UTF-8.\<close>

definition check_mark :: string where
  "check_mark = [CHR 0xE2, CHR 0x9C, CHR 0x94]"

definition cross_mark :: string where
  "cross_mark = [CHR 0xE2, CHR 0x9C, CHR 0x96]"

definition humanreadableAccessCode :: "Outcome \<Rightarrow> panic + string" where
  "humanreadableAccessCode o' =
     (if o' = None_outcome then Inr ''''
      else if o' = Up then Inr check_mark
      else if o' = Down then Inr cross_mark
      else if o' = Err then Inr ''ERR''
      else Inl (Panic ''unknown access code''))"

definition asciiAccessCode :: "Outcome \<Rightarrow> panic + string" where
  "asciiAccessCode o' =
     (if o' = None_outcome then Inr ''n/a''
      else if o' = Up then Inr ''yes''
      else if o' = Down then Inr ''no''
      else if o' = Err then Inr ''ERR''
      else Inl (Panic ''unknown access code''))"

text \<open>The verb \<^verbatim>\<open>%d\<close> of \<^verbatim>\<open>fmt.Sprintf\<close>: an integer in decimal.\<close>

definition digit_char :: "nat \<Rightarrow> char" where
  "digit_char n = char_of (48 + n)"

function digits :: "nat \<Rightarrow> string" where
  "digits n = (if n < 10 then [digit_char n] else digits (n div 10) @ [digit_char (n mod 10)])"
  by pat_completeness auto
termination
  by (relation "measure id") auto

declare digits.simps [simp del]

definition fmt_d :: "int \<Rightarrow> string" where
  "fmt_d i = (if i < 0 then CHR ''-'' # digits (nat (- i)) else digits (nat i))"

text \<open>
  The bytes \<^verbatim>\<open>\xff\<close> (the escape marker of the tab writer) and \<^verbatim>\<open>\033\<close> (ESC).
\<close>

definition marker :: char where "marker = CHR 0xFF"
definition ESC :: char where "ESC = CHR 0x1B"

text \<open>\<^verbatim>\<open>fmt.Sprintf("\xff\033[%dm\xff%s\xff\033[0m\xff", c, s)\<close>\<close>

definition color_format :: "color \<Rightarrow> string \<Rightarrow> string" where
  "color_format c s =
     [marker, ESC] @ ''['' @ fmt_d c @ ''m'' @ [marker] @ s @ [marker, ESC] @ ''[0m'' @ [marker]"

text \<open>
  \<^verbatim>\<open>colored(wrap)\<close>: the colour is chosen first, then \<^verbatim>\<open>wrap(o)\<close> is evaluated as an
  argument of \<^verbatim>\<open>Sprintf\<close>, so a panic of \<^verbatim>\<open>wrap\<close> is the panic of the call.
\<close>

definition colored :: "(Outcome \<Rightarrow> panic + string) \<Rightarrow> Outcome \<Rightarrow> panic + string" where
  "colored wrap o' =
     (let c = (if o' = Up then green else if o' = Down then red
               else if o' = Err then purple else none)
      in case wrap o' of Inl p \<Rightarrow> Inl p | Inr s \<Rightarrow> Inr (color_format c s))"

definition Outcome_Render :: "Outcome \<Rightarrow> Env \<Rightarrow> panic + string" where
  "Outcome_Render o' e =
     (let conv = humanreadableAccessCode;
          conv = (if IsTerminal e then colored conv else conv);
          conv = (if OutputFormat e = ''ascii-table'' then asciiAccessCode else conv)
      in conv o')"

text \<open>
  The interface \<^verbatim>\<open>Renderable\<close> has the one method \<^verbatim>\<open>Render(Env) string\<close>; its values are
  the functions from environments to strings (\<^verbatim>\<open>RenderableFunc\<close> is this type itself).
\<close>

type_synonym Renderable = "Env \<Rightarrow> string"

definition Text :: "string \<Rightarrow> Renderable" where
  "Text t = (\<lambda>_. t)"

definition Bold :: "Renderable \<Rightarrow> Renderable" where
  "Bold in' = (\<lambda>e.
     let inner = in' e
     in if \<not> IsTerminal e then inner
        else [marker, ESC] @ ''[1m'' @ inner @ [ESC] @ ''[0m'' @ [marker])"

definition BoldText :: "string \<Rightarrow> Renderable" where
  "BoldText str = Bold (Text str)"

definition TextList :: "string list \<Rightarrow> Renderable list" where
  "TextList strs = map Text strs"

text \<open>
  Rows and tables. The element type of \<^verbatim>\<open>Intro\<close> and \<^verbatim>\<open>Headers\<close> is a type parameter:
  it is \<^verbatim>\<open>Renderable\<close> in the printer at hand, and \<^verbatim>\<open>string\<close> for the printer that
  \<^verbatim>\<open>internal/client/result/resource.go\<close> calls (it passes \<^verbatim>\<open>[]string\<close> to \<^verbatim>\<open>AddRow\<close>).
\<close>

record 'a Row =
  Intro :: "'a list"
  Entries :: "Outcome list"

record 'a Table =
  Headers :: "'a list"
  Rows :: "'a Row list"

definition TableWithHeaders :: "'a list \<Rightarrow> 'a Table" where
  "TableWithHeaders headers = \<lparr>Headers = headers, Rows = []\<rparr>"

definition AddRow :: "'a Table \<Rightarrow> 'a list \<Rightarrow> Outcome list \<Rightarrow> 'a Table" where
  "AddRow p intro outcomes =
     (let row = \<lparr>Intro = intro, Entries = outcomes\<rparr>
      in p\<lparr>Rows := Rows p @ [row]\<rparr>)"

subsection \<open>Table.Render\<close>

text \<open>
  \<^verbatim>\<open>Table.Render\<close> prints into a column-aligning tab writer of another library, which is
  not modelled: the result here is the text handed to that writer, cells separated by
  tabs and lines ended by newlines. The flag is the value of \<^verbatim>\<open>isTerminal(out)\<close>. A panic
  of a cell is the result of the call (the text printed before it is not kept).
\<close>

definition TAB :: char where "TAB = CHR 0x09"
definition NL :: char where "NL = CHR 0x0A"

fun render_cells :: "Env \<Rightarrow> nat \<Rightarrow> Renderable list \<Rightarrow> string" where
  "render_cells env i [] = []"
| "render_cells env i (h # hs) =
     (if i = 0 then h env else TAB # h env) @ render_cells env (Suc i) hs"

fun render_entries :: "Env \<Rightarrow> Outcome list \<Rightarrow> panic + string" where
  "render_entries env [] = Inr []"
| "render_entries env (e # es) =
     (case Outcome_Render e env of
        Inl p \<Rightarrow> Inl p
      | Inr s \<Rightarrow> (case render_entries env es of
                    Inl p \<Rightarrow> Inl p
                  | Inr r \<Rightarrow> Inr (TAB # s @ r)))"

fun render_rows :: "Env \<Rightarrow> Renderable Row list \<Rightarrow> panic + string" where
  "render_rows env [] = Inr []"
| "render_rows env (row # rows) =
     (case render_entries env (Entries row) of
        Inl p \<Rightarrow> Inl p
      | Inr es \<Rightarrow> (case render_rows env rows of
                     Inl p \<Rightarrow> Inl p
                   | Inr r \<Rightarrow> Inr (render_cells env 0 (Intro row) @ es @ [NL] @ r)))"

definition Table_Render :: "bool \<Rightarrow> string \<Rightarrow> Renderable Table \<Rightarrow> panic + string" where
  "Table_Render isTerminal outputFormat p =
     (let env = \<lparr>IsTerminal = isTerminal, OutputFormat = outputFormat\<rparr>
      in case render_rows env (Rows p) of
           Inl pn \<Rightarrow> Inl pn
         | Inr body \<Rightarrow> Inr (render_cells env 0 (Headers p) @ [NL] @ body))"

section \<open>Access results and their table\<close>

text \<open>
  Modelled from the spec: the declaration of the type \<^verbatim>\<open>Access\<close> and of its constants is
  in a file of package \<^verbatim>\<open>result\<close> that is not at hand. The four constants are the ones
  the switch of \<^verbatim>\<open>Table\<close> names (the spec's allowed, denied, not-applicable, error);
  \<open>OtherAccess\<close> stands for a value of the type that is none of them. Which value is the
  zero value of the type, the one a lookup of a missing key yields, is not known: it is
  the parameter \<open>zero\<close> of the definitions below.
\<close>

datatype Access = Denied | Allowed | NotApplicable | RequestErr | OtherAccess

text \<open>
  \<^verbatim>\<open>type ResourceAccess map[string]map[string]Access\<close>. The outer map is an association
  list: the order of its entries is the order in which \<^verbatim>\<open>range\<close> happens to visit the
  keys, a lookup is \<^const>\<open>map_of\<close>, and a map of Go has distinct keys.
\<close>

type_synonym VerbAccess = "string \<rightharpoonup> Access"
type_synonym ResourceAccess = "(string \<times> VerbAccess) list"

text \<open>\<^verbatim>\<open>ra[key]\<close>: a missing key yields the nil map.\<close>

definition ra_index :: "ResourceAccess \<Rightarrow> string \<Rightarrow> VerbAccess" where
  "ra_index ra key = (case map_of ra key of None \<Rightarrow> Map.empty | Some res \<Rightarrow> res)"

text \<open>\<^verbatim>\<open>res[v]\<close>: a missing key yields the zero value of \<^verbatim>\<open>Access\<close>.\<close>

definition res_index :: "Access \<Rightarrow> VerbAccess \<Rightarrow> string \<Rightarrow> Access" where
  "res_index zero res v = (case res v of None \<Rightarrow> zero | Some a \<Rightarrow> a)"

text \<open>
  The switch in the loop over the verbs; \<^verbatim>\<open>var o printer.Outcome\<close> starts at the zero
  value \<^verbatim>\<open>None\<close> and stays there when no case matches.
\<close>

fun access_outcome :: "Access \<Rightarrow> Outcome" where
  "access_outcome Denied = Down"
| "access_outcome Allowed = Up"
| "access_outcome NotApplicable = None_outcome"
| "access_outcome RequestErr = Err"
| "access_outcome OtherAccess = None_outcome"

definition verb_outcomes :: "Access \<Rightarrow> VerbAccess \<Rightarrow> string list \<Rightarrow> Outcome list" where
  "verb_outcomes zero res verbs = map (\<lambda>v. access_outcome (res_index zero res v)) verbs"

subsection \<open>Group resources (package schema of the Kubernetes API machinery)\<close>

record GroupResource =
  Group :: string
  Resource :: string

text \<open>
  \<^verbatim>\<open>schema.ParseGroupResource\<close> splits at the first dot: the resource is what precedes
  it, the group what follows; a string without a dot is a resource of the empty group.
  \<^verbatim>\<open>GroupResource.String\<close> joins the two with a dot unless the group is empty.
\<close>

definition ParseGroupResource :: "string \<Rightarrow> GroupResource" where
  "ParseGroupResource gr =
     (if CHR ''.'' \<in> set gr
      then \<lparr>Group = tl (dropWhile (\<lambda>c. c \<noteq> CHR ''.'') gr),
            Resource = takeWhile (\<lambda>c. c \<noteq> CHR ''.'') gr\<rparr>
      else \<lparr>Group = '''', Resource = gr\<rparr>)"

definition GroupResource_String :: "GroupResource \<Rightarrow> string" where
  "GroupResource_String gr =
     (if length (Group gr) = 0 then Resource gr else Resource gr @ ''.'' @ Group gr)"

subsection \<open>Sorting\<close>

text \<open>The comparison function handed to \<^verbatim>\<open>sort.Slice\<close>; \<^verbatim>\<open>cmp.Less\<close> on strings is \<open><\<close> on bytes.\<close>

definition less_gr :: "GroupResource \<Rightarrow> GroupResource \<Rightarrow> bool" where
  "less_gr x y =
     (if Group x \<noteq> Group y then Group x < Group y else Resource x < Resource y)"

text \<open>
  \<^verbatim>\<open>sort.Slice\<close> sorts by the comparison it is given, with an algorithm of its own and
  no promise of stability. The model is insertion sort by the same comparison.
\<close>

fun insort_by :: "('a \<Rightarrow> 'a \<Rightarrow> bool) \<Rightarrow> 'a \<Rightarrow> 'a list \<Rightarrow> 'a list" where
  "insort_by lt x [] = [x]"
| "insort_by lt x (y # ys) =
     (if lt x y then x # y # ys else y # insort_by lt x ys)"

definition sort_Slice :: "('a \<Rightarrow> 'a \<Rightarrow> bool) \<Rightarrow> 'a list \<Rightarrow> 'a list" where
  "sort_Slice lt xs = foldr (insort_by lt) xs []"

subsection \<open>ResourceAccess.Table (internal/client/result/resource.go)\<close>

text \<open>
  \<^verbatim>\<open>strings.ToUpper\<close> is the parameter \<open>toUpper\<close>: nothing below depends on what it does.
  The loop over the sorted slice carries the index \<open>i\<close>, \<^verbatim>\<open>lastGroup\<close> and the table.
\<close>

fun Table_body ::
  "string list \<Rightarrow> Access \<Rightarrow> ResourceAccess \<Rightarrow> string list \<Rightarrow> nat \<Rightarrow> GroupResource list \<Rightarrow>
   string \<times> string Table \<Rightarrow> string \<times> string Table" where
  "Table_body upperVerbs zero ra verbs i [] st = st"
| "Table_body upperVerbs zero ra verbs i (gr # grs) (lastGroup, p) =
     (let (lastGroup, p) =
            (if Group gr \<noteq> lastGroup \<or> i = 0 then
               let p = (if i \<noteq> 0 then AddRow p ['' ''] [None_outcome] else p);
                   displayGroup = Group gr;
                   displayGroup = (if displayGroup = '''' then ''core'' else displayGroup);
                   p = AddRow p ((displayGroup @ '':'') # upperVerbs) [None_outcome]
               in (Group gr, p)
             else (lastGroup, p));
          res = ra_index ra (GroupResource_String gr);
          outcomes = verb_outcomes zero res verbs;
          p = AddRow p [Resource gr] outcomes
      in Table_body upperVerbs zero ra verbs (Suc i) grs (lastGroup, p))"

definition ResourceAccess_Table ::
  "(string \<Rightarrow> string) \<Rightarrow> Access \<Rightarrow> ResourceAccess \<Rightarrow> string list \<Rightarrow> string Table" where
  "ResourceAccess_Table toUpper zero ra verbs =
     (let groupResources = map (\<lambda>(name, _). ParseGroupResource name) ra;
          groupResources = sort_Slice less_gr groupResources;
          upperVerbs = map toUpper verbs;
          p = TableWithHeaders []
      in snd (Table_body upperVerbs zero ra verbs 0 groupResources ('''', p)))"

text \<open>The slice \<^verbatim>\<open>groupResources\<close> once it is sorted: what the loop of \<^verbatim>\<open>Table\<close> walks.\<close>

definition sorted_groupResources :: "ResourceAccess \<Rightarrow> GroupResource list" where
  "sorted_groupResources ra = sort_Slice less_gr (map (\<lambda>(name, _). ParseGroupResource name) ra)"

subsection \<open>ResourceAccess.Table, the variant on renderable cells (src/unnamed/part_000)\<close>

text \<open>
  This variant sorts the keys themselves and looks the outcomes up under the key. Its
  comparison does not tell \<open>pods\<close> from \<open>pods.\<close>, so for such keys the order that
  \<^verbatim>\<open>sort.Slice\<close> leaves is not determined by the source; the model has the order of
  insertion sort.

  \<^verbatim>\<open>strings.Cut(s, sep)\<close>: the text before and after the first occurrence of \<open>sep\<close>, and
  whether there is one; without one, \<open>s\<close> itself and the empty string.
\<close>

fun Cut :: "string \<Rightarrow> string \<Rightarrow> string \<times> string \<times> bool" where
  "Cut [] sep = ([], [], sep = [])"
| "Cut (c # cs) sep =
     (if prefix sep (c # cs) then ([], drop (length sep) (c # cs), True)
      else case Cut cs sep of (before, after, found) \<Rightarrow> (c # before, after, found))"

definition less_name :: "string \<Rightarrow> string \<Rightarrow> bool" where
  "less_name x y =
     (case Cut x ''.'' of (resourcex, groupx, _) \<Rightarrow>
      case Cut y ''.'' of (resourcey, groupy, _) \<Rightarrow>
        if groupx = groupy then resourcex < resourcey else groupx < groupy)"

fun Table_body_renderable ::
  "Access \<Rightarrow> ResourceAccess \<Rightarrow> string list \<Rightarrow> string list \<Rightarrow>
   string \<times> Renderable Table \<Rightarrow> string \<times> Renderable Table" where
  "Table_body_renderable zero ra verbs [] st = st"
| "Table_body_renderable zero ra verbs (name # names) (lastGroup, p) =
     (case Cut name ''.'' of (resource, group', _) \<Rightarrow>
      let (lastGroup, p) =
            (if group' \<noteq> lastGroup then
               let p = AddRow p (TextList ['' '']) [None_outcome];
                   p = AddRow p [BoldText (group' @ '':'')] [None_outcome]
               in (group', p)
             else (lastGroup, p));
          res = ra_index ra name;
          outcomes = verb_outcomes zero res verbs;
          p = AddRow p (TextList [resource]) outcomes
      in Table_body_renderable zero ra verbs names (lastGroup, p))"

definition ResourceAccess_Table_renderable ::
  "(string \<Rightarrow> string) \<Rightarrow> Access \<Rightarrow> ResourceAccess \<Rightarrow> string list \<Rightarrow> Renderable Table" where
  "ResourceAccess_Table_renderable toUpper zero ra verbs =
     (let names = map fst ra;
          names = sort_Slice less_name names;
          headers = [Text ''NAME''] @ map (\<lambda>v. Text (toUpper v)) verbs;
          p = TableWithHeaders headers
      in snd (Table_body_renderable zero ra verbs names ('''', p)))"

section \<open>The layout of the table body, in the words of the specification\<close>

text \<open>
  The specification describes the body as a walk over the sorted sequence: at the very
  first element and at every change of group a group-header row, each preceded by a
  blank spacer row except before the very first group; then one data row per resource.
  \<open>layout\<close> is that description, with the kind of each row made explicit; \<open>row_of\<close> is
  the row of the table that stands for a kind.
\<close>

datatype RowKind =
    is_Spacer: Spacer
  | is_GroupHeader: GroupHeader string
  | is_DataRow: DataRow GroupResource

fun layout_from :: "string \<Rightarrow> GroupResource list \<Rightarrow> RowKind list" where
  "layout_from prev [] = []"
| "layout_from prev (g # gs) =
     (if Group g \<noteq> prev then [Spacer, GroupHeader (Group g)] else []) @
     DataRow g # layout_from (Group g) gs"

fun layout :: "GroupResource list \<Rightarrow> RowKind list" where
  "layout [] = []"
| "layout (g # gs) = GroupHeader (Group g) # DataRow g # layout_from (Group g) gs"

fun row_of :: "string list \<Rightarrow> Access \<Rightarrow> ResourceAccess \<Rightarrow> string list \<Rightarrow> RowKind \<Rightarrow> string Row" where
  "row_of upperVerbs zero ra verbs Spacer = \<lparr>Intro = ['' ''], Entries = [None_outcome]\<rparr>"
| "row_of upperVerbs zero ra verbs (GroupHeader g) =
     \<lparr>Intro = ((if g = '''' then ''core'' else g) @ '':'') # upperVerbs,
      Entries = [None_outcome]\<rparr>"
| "row_of upperVerbs zero ra verbs (DataRow gr) =
     \<lparr>Intro = [Resource gr],
      Entries = verb_outcomes zero (ra_index ra (GroupResource_String gr)) verbs\<rparr>"

text \<open>The data rows of a layout, as the group resources they stand for.\<close>

fun data_of :: "RowKind list \<Rightarrow> GroupResource list" where
  "data_of [] = []"
| "data_of (DataRow g # ks) = g # data_of ks"
| "data_of (k # ks) = data_of ks"

text \<open>The sort key of the specification: the pair of group and resource, compared lexicographically.\<close>

definition gr_key :: "GroupResource \<Rightarrow> string \<times> string" where
  "gr_key g = (Group g, Resource g)"

text \<open>The example of the specification: pods in the core group and pods in the group apps.\<close>

definition example_ra :: ResourceAccess where
  "example_ra =
     [(''pods'', [''get'' \<mapsto> Allowed, ''list'' \<mapsto> Denied]),
      (''pods.apps'', [''get'' \<mapsto> RequestErr])]"

section \<open>Rendering of outcomes\<close>

lemma fmt_d_colors:
  "fmt_d none = ''0''" "fmt_d red = ''31''" "fmt_d green = ''32''" "fmt_d purple = ''35''"
  by code_simp+

lemmas outcome_defs = None_outcome_def Up_def Down_def Err_def

lemma Outcome_Render_ascii:
  "OutputFormat e = ''ascii-table'' \<Longrightarrow> Outcome_Render o' e = asciiAccessCode o'"
  by (simp add: Outcome_Render_def)

lemma render_entries_ascii:
  "OutputFormat e1 = ''ascii-table'' \<Longrightarrow> OutputFormat e2 = ''ascii-table'' \<Longrightarrow>
   render_entries e1 es = render_entries e2 es"
  by (induction es) (auto simp: Outcome_Render_ascii split: sum.splits)

lemma render_cells_cong:
  "(\<And>h. h \<in> set hs \<Longrightarrow> h e1 = h e2) \<Longrightarrow> render_cells e1 i hs = render_cells e2 i hs"
  by (induction hs arbitrary: i) simp_all

lemma render_rows_ascii:
  "OutputFormat e1 = ''ascii-table'' \<Longrightarrow> OutputFormat e2 = ''ascii-table'' \<Longrightarrow>
   (\<And>r h. r \<in> set rows \<Longrightarrow> h \<in> set (Intro r) \<Longrightarrow> h e1 = h e2) \<Longrightarrow>
   render_rows e1 rows = render_rows e2 rows"
proof (induction rows)
  case Nil
  then show ?case by simp
next
  case (Cons r rows)
  have "render_entries e1 (Entries r) = render_entries e2 (Entries r)"
    using Cons.prems(1,2) by (rule render_entries_ascii)
  moreover have "render_cells e1 0 (Intro r) = render_cells e2 0 (Intro r)"
    using Cons.prems(3) [of r] by (intro render_cells_cong) simp
  moreover have "render_rows e1 rows = render_rows e2 rows"
    using Cons.prems by (intro Cons.IH) auto
  ultimately show ?case by (auto split: sum.splits)
qed

text \<open>
  C5 (amended). With the default output format on a terminal, the glyph of Allowed is
  wrapped in the escape sequence of colour 32 (green), that of Denied in 31 (red), that
  of Error in 35 (purple), each closed by the reset sequence; and NoData is wrapped as
  well, in the sequence of colour code 0 around the empty string.
\<close>

theorem C5_terminal_colors:
  "Outcome_Render Up \<lparr>IsTerminal = True, OutputFormat = ''default''\<rparr> =
     Inr ([CHR 0xFF, CHR 0x1B] @ ''[32m'' @ [CHR 0xFF] @ check_mark @
          [CHR 0xFF, CHR 0x1B] @ ''[0m'' @ [CHR 0xFF]) \<and>
   Outcome_Render Down \<lparr>IsTerminal = True, OutputFormat = ''default''\<rparr> =
     Inr ([CHR 0xFF, CHR 0x1B] @ ''[31m'' @ [CHR 0xFF] @ cross_mark @
          [CHR 0xFF, CHR 0x1B] @ ''[0m'' @ [CHR 0xFF]) \<and>
   Outcome_Render Err \<lparr>IsTerminal = True, OutputFormat = ''default''\<rparr> =
     Inr ([CHR 0xFF, CHR 0x1B] @ ''[35m'' @ [CHR 0xFF] @ ''ERR'' @
          [CHR 0xFF, CHR 0x1B] @ ''[0m'' @ [CHR 0xFF]) \<and>
   Outcome_Render None_outcome \<lparr>IsTerminal = True, OutputFormat = ''default''\<rparr> =
     Inr ([CHR 0xFF, CHR 0x1B] @ ''[0m'' @ [CHR 0xFF] @ '''' @
          [CHR 0xFF, CHR 0x1B] @ ''[0m'' @ [CHR 0xFF])"
  by (simp add: Outcome_Render_def colored_def humanreadableAccessCode_def outcome_defs
      color_format_def fmt_d_colors marker_def ESC_def)

text \<open>
  The claim as it was stated fails for NoData: on a terminal its rendering is not the
  bare empty string of the human-readable mode but twelve bytes of escape sequences.
\<close>

theorem C5_NoData_wrapped_counterexample:
  "Outcome_Render None_outcome \<lparr>IsTerminal = True, OutputFormat = ''default''\<rparr> \<noteq> Inr '''' \<and>
   Outcome_Render None_outcome \<lparr>IsTerminal = True, OutputFormat = ''default''\<rparr> =
     Inr [CHR 0xFF, CHR 0x1B, CHR ''['', CHR ''0'', CHR ''m'', CHR 0xFF,
          CHR 0xFF, CHR 0x1B, CHR ''['', CHR ''0'', CHR ''m'', CHR 0xFF]"
  by (simp add: Outcome_Render_def colored_def humanreadableAccessCode_def outcome_defs
      color_format_def fmt_d_colors marker_def ESC_def)

text \<open>
  C6. For each of the four outcomes and every environment whose output format is
  \<open>ascii-table\<close>, the rendering is one of \<open>n/a\<close>, \<open>yes\<close>, \<open>no\<close>, \<open>ERR\<close>, holds neither the
  escape byte nor the marker byte, and is the same whatever the terminal flag; so are
  the outcome cells of a row, and the whole text of a table whose header and intro
  cells do not look at the terminal flag. With equal flags the latter condition holds of
  every table: rendering a table twice gives the same bytes.
\<close>

theorem C6_ascii_table:
  assumes "o' \<in> {None_outcome, Up, Down, Err}" and "OutputFormat e = ''ascii-table''"
  shows "(\<exists>s. Outcome_Render o' e = Inr s \<and> s \<in> {''n/a'', ''yes'', ''no'', ''ERR''} \<and>
              ESC \<notin> set s \<and> marker \<notin> set s) \<and>
         Outcome_Render o' (e\<lparr>IsTerminal := t\<rparr>) = Outcome_Render o' e \<and>
         render_entries (e\<lparr>IsTerminal := t\<rparr>) es = render_entries e es \<and>
         ((\<forall>h \<in> set (Headers p) \<union> (\<Union>r \<in> set (Rows p). set (Intro r)).
              h \<lparr>IsTerminal = t1, OutputFormat = ''ascii-table''\<rparr> =
              h \<lparr>IsTerminal = t2, OutputFormat = ''ascii-table''\<rparr>) \<longrightarrow>
          Table_Render t1 ''ascii-table'' p = Table_Render t2 ''ascii-table'' p)"
proof -
  have a: "\<exists>s. Outcome_Render o' e = Inr s \<and> s \<in> {''n/a'', ''yes'', ''no'', ''ERR''} \<and>
              ESC \<notin> set s \<and> marker \<notin> set s"
    using assms
    by (auto simp: Outcome_Render_ascii asciiAccessCode_def outcome_defs ESC_def marker_def)
  have b: "Outcome_Render o' (e\<lparr>IsTerminal := t\<rparr>) = Outcome_Render o' e"
    using assms(2) by (simp add: Outcome_Render_ascii)
  have c: "render_entries (e\<lparr>IsTerminal := t\<rparr>) es = render_entries e es"
    using assms(2) by (intro render_entries_ascii) simp_all
  have d: "Table_Render t1 ''ascii-table'' p = Table_Render t2 ''ascii-table'' p"
    if h: "\<forall>h \<in> set (Headers p) \<union> (\<Union>r \<in> set (Rows p). set (Intro r)).
              h \<lparr>IsTerminal = t1, OutputFormat = ''ascii-table''\<rparr> =
              h \<lparr>IsTerminal = t2, OutputFormat = ''ascii-table''\<rparr>"
  proof -
    let ?e1 = "\<lparr>IsTerminal = t1, OutputFormat = ''ascii-table''\<rparr>"
    let ?e2 = "\<lparr>IsTerminal = t2, OutputFormat = ''ascii-table''\<rparr>"
    have "render_rows ?e1 (Rows p) = render_rows ?e2 (Rows p)"
      using h by (intro render_rows_ascii) auto
    moreover have "render_cells ?e1 0 (Headers p) = render_cells ?e2 0 (Headers p)"
      using h by (intro render_cells_cong) auto
    ultimately show ?thesis by (auto simp: Table_Render_def Let_def split: sum.splits)
  qed
  show ?thesis using a b c d by blast
qed

theorem C6_ascii_table_witness:
  "Outcome_Render Up \<lparr>IsTerminal = True, OutputFormat = ''ascii-table''\<rparr> = Inr ''yes'' \<and>
   Outcome_Render Up \<lparr>IsTerminal = False, OutputFormat = ''ascii-table''\<rparr> = Inr ''yes'' \<and>
   Table_Render True ''ascii-table''
     \<lparr>Headers = [Text ''NAME''], Rows = [\<lparr>Intro = [Text ''pods''], Entries = [Up, Down]\<rparr>]\<rparr> =
   Table_Render False ''ascii-table''
     \<lparr>Headers = [Text ''NAME''], Rows = [\<lparr>Intro = [Text ''pods''], Entries = [Up, Down]\<rparr>]\<rparr>"
  using C6_ascii_table [of Up "\<lparr>IsTerminal = True, OutputFormat = ''ascii-table''\<rparr>" False "[]"
      "\<lparr>Headers = [Text ''NAME''], Rows = [\<lparr>Intro = [Text ''pods''], Entries = [Up, Down]\<rparr>]\<rparr>"
      True False]
  by (simp add: Text_def Outcome_Render_def asciiAccessCode_def outcome_defs)

text \<open>
  C7. \<^verbatim>\<open>Outcome.Render\<close> panics, with the message \<open>unknown access code\<close>, exactly on the
  values of \<^verbatim>\<open>uint8\<close> that are none of the four declared constants, in every environment;
  on each of the four constants it returns a string.
\<close>

theorem C7_unknown_outcome_panics:
  "(Outcome_Render o' e = Inl (Panic ''unknown access code'')) =
     (o' \<notin> {None_outcome, Up, Down, Err}) \<and>
   (\<exists>s. Outcome_Render o' e = Inr s) = (o' \<in> {None_outcome, Up, Down, Err})"
  by (auto simp add: Outcome_Render_def Let_def colored_def humanreadableAccessCode_def
      asciiAccessCode_def)

text \<open>
  C8. For every outcome, every terminal flag and every output format other than
  \<open>ascii-table\<close> (the empty string and unknown names among them), \<^verbatim>\<open>Outcome.Render\<close> gives what
  it gives for the format \<open>default\<close> with the same flag.
\<close>

theorem C8_other_formats_are_default:
  "f \<noteq> ''ascii-table'' \<Longrightarrow>
   Outcome_Render o' \<lparr>IsTerminal = t, OutputFormat = f\<rparr> =
   Outcome_Render o' \<lparr>IsTerminal = t, OutputFormat = ''default''\<rparr>"
  by (simp add: Outcome_Render_def)

theorem C8_other_formats_are_default_witness:
  "'''' \<noteq> ''ascii-table'' \<and> ''json'' \<noteq> ''ascii-table'' \<and>
   Outcome_Render Up \<lparr>IsTerminal = True, OutputFormat = ''''\<rparr> =
   Outcome_Render Up \<lparr>IsTerminal = True, OutputFormat = ''default''\<rparr> \<and>
   Outcome_Render Down \<lparr>IsTerminal = False, OutputFormat = ''json''\<rparr> =
   Outcome_Render Down \<lparr>IsTerminal = False, OutputFormat = ''default''\<rparr>"
  using C8_other_formats_are_default [of "''''" Up True]
    C8_other_formats_are_default [of "''json''" Down False]
  by simp

section \<open>The loop of Table and the layout\<close>

text \<open>
  After the first iteration \<^verbatim>\<open>lastGroup\<close> is the group of the element before, so the test
  \<^verbatim>\<open>gr.Group != lastGroup || i == 0\<close> is the change of group of the description.
\<close>

lemma Table_body_from:
  "i \<noteq> 0 \<Longrightarrow> Table_body uv z ra verbs i grs (lg, p) = (lg', p') \<Longrightarrow>
   Rows p' = Rows p @ map (row_of uv z ra verbs) (layout_from lg grs) \<and> Headers p' = Headers p"
proof (induction grs arbitrary: i lg p)
  case Nil
  then show ?case by simp
next
  case (Cons g gs)
  show ?case
    using Cons.prems Cons.IH [of "Suc i"]
    by (auto simp: Let_def AddRow_def split: if_splits)
qed

lemma Table_body_first:
  assumes "Table_body uv z ra verbs 0 grs (lg, p) = (lg', p')"
  shows "Rows p' = Rows p @ map (row_of uv z ra verbs) (layout grs) \<and> Headers p' = Headers p"
proof (cases grs)
  case Nil
  then show ?thesis using assms by auto
next
  case (Cons g gs)
  show ?thesis
    using assms Table_body_from [of "Suc 0" uv z ra verbs gs] unfolding Cons
    by (auto simp: Let_def AddRow_def split: if_splits)
qed

lemma Table_rows_layout:
  "Rows (ResourceAccess_Table toUpper zero ra verbs) =
     map (row_of (map toUpper verbs) zero ra verbs) (layout (sorted_groupResources ra))"
proof -
  obtain lg' p' where b: "Table_body (map toUpper verbs) zero ra verbs 0
      (sorted_groupResources ra) ('''', TableWithHeaders []) = (lg', p')"
    by (cases "Table_body (map toUpper verbs) zero ra verbs 0
      (sorted_groupResources ra) ('''', TableWithHeaders [])") auto
  from Table_body_first [OF b] show ?thesis
    using b by (simp add: ResourceAccess_Table_def sorted_groupResources_def TableWithHeaders_def)
qed

lemma data_of_layout_from: "data_of (layout_from prev gs) = gs"
  by (induction gs arbitrary: prev) auto

lemma data_of_layout: "data_of (layout gs) = gs"
  by (cases gs) (auto simp: data_of_layout_from)

lemma count_layout_from:
  "length (filter is_DataRow (layout_from prev gs)) = length gs \<and>
   length (filter is_GroupHeader (layout_from prev gs)) =
     length (filter is_Spacer (layout_from prev gs))"
  by (induction gs arbitrary: prev) auto

lemma count_layout:
  "length (filter is_DataRow (layout gs)) = length gs \<and>
   length (filter is_GroupHeader (layout gs)) =
     (if gs = [] then 0 else Suc (length (filter is_Spacer (layout gs))))"
  by (cases gs) (auto simp: count_layout_from)

lemma length_verb_outcomes: "length (verb_outcomes zero res verbs) = length verbs"
  by (simp add: verb_outcomes_def)

lemma Entries_row_of:
  "Entries (row_of uv zero ra verbs k) =
     (case k of DataRow g \<Rightarrow> verb_outcomes zero (ra_index ra (GroupResource_String g)) verbs
      | _ \<Rightarrow> [None_outcome])"
  by (cases k) simp_all

lemma length_Entries_row_of:
  "length (Entries (row_of uv zero ra verbs k)) = (if is_DataRow k then length verbs else 1)"
  by (cases k) (simp_all add: length_verb_outcomes)

section \<open>Sorting by group, then resource\<close>

text \<open>
  The comparison of the source is the strict lexicographic order of the keys, bytes
  compared by their codes. Insertion sort by it gives a sorted permutation, and since the
  key determines the element there is only one: whatever \<^verbatim>\<open>sort.Slice\<close> does inside, and
  in whatever order the keys of the map are visited, the sorted slice is this list.
\<close>

lemma less_gr_key: "less_gr x y \<longleftrightarrow> gr_key x < gr_key y"
  by (auto simp: less_gr_def gr_key_def less_prod_def)

lemma inj_gr_key: "inj gr_key"
  by (rule injI) (simp add: gr_key_def)

lemma gr_key_le_Group: "gr_key x \<le> gr_key y \<Longrightarrow> Group x \<le> Group y"
  by (auto simp: gr_key_def less_eq_prod_def)

lemma mset_insort_by: "mset (insort_by lt x xs) = add_mset x (mset xs)"
  by (induction xs) auto

lemma mset_sort_Slice: "mset (sort_Slice lt xs) = mset xs"
  by (induction xs) (auto simp: sort_Slice_def mset_insort_by)

lemma set_insort_by: "set (insort_by lt x xs) = insert x (set xs)"
  by (induction xs) auto

lemma sorted_insort_by:
  "sorted (map gr_key xs) \<Longrightarrow> sorted (map gr_key (insort_by less_gr x xs))"
  by (induction xs) (auto simp: set_insort_by less_gr_key)

lemma sorted_sort_Slice: "sorted (map gr_key (sort_Slice less_gr xs))"
  by (induction xs) (auto simp: sort_Slice_def sorted_insort_by)

lemma sort_Slice_unique:
  assumes "mset ys = mset xs" and "sorted (map gr_key ys)"
  shows "ys = sort_Slice less_gr xs"
proof -
  have "sort (map gr_key xs) = map gr_key ys"
    using assms by (intro properties_for_sort) auto
  moreover have "sort (map gr_key xs) = map gr_key (sort_Slice less_gr xs)"
    by (intro properties_for_sort) (auto simp: mset_sort_Slice sorted_sort_Slice)
  ultimately have "map gr_key ys = map gr_key (sort_Slice less_gr xs)" by simp
  then show ?thesis using inj_gr_key by (simp add: inj_map_eq_map)
qed

lemma mset_sorted_groupResources:
  "mset (sorted_groupResources ra) = mset (map (\<lambda>(name, _). ParseGroupResource name) ra)"
  by (simp add: sorted_groupResources_def mset_sort_Slice)

lemma sorted_sorted_groupResources: "sorted (map gr_key (sorted_groupResources ra))"
  by (simp add: sorted_groupResources_def sorted_sort_Slice)

lemma length_sorted_groupResources: "length (sorted_groupResources ra) = length ra"
  using mset_sorted_groupResources [of ra] by (metis length_map size_mset)

lemma sorted_groupResources_Nil: "sorted_groupResources ra = [] \<longleftrightarrow> ra = []"
  using length_sorted_groupResources [of ra] by (metis length_0_conv)

lemma sorted_groupResources_example:
  "sorted_groupResources example_ra =
     [\<lparr>Group = '''', Resource = ''pods''\<rparr>, \<lparr>Group = ''apps'', Resource = ''pods''\<rparr>]"
  "sorted_groupResources (rev example_ra) =
     [\<lparr>Group = '''', Resource = ''pods''\<rparr>, \<lparr>Group = ''apps'', Resource = ''pods''\<rparr>]"
  by (simp_all add: sorted_groupResources_def example_ra_def sort_Slice_def
      ParseGroupResource_def less_gr_def)

lemma ra_index_example:
  "ra_index example_ra ''pods'' = [''get'' \<mapsto> Allowed, ''list'' \<mapsto> Denied]"
  "ra_index example_ra ''pods.apps'' = [''get'' \<mapsto> RequestErr]"
  "ra_index (rev example_ra) ''pods'' = [''get'' \<mapsto> Allowed, ''list'' \<mapsto> Denied]"
  "ra_index (rev example_ra) ''pods.apps'' = [''get'' \<mapsto> RequestErr]"
  by (simp_all add: ra_index_def example_ra_def)

text \<open>A header of a group is new with respect to the group before it in the sorted walk.\<close>

lemma header_in_layout_from:
  "sorted (map gr_key gs) \<Longrightarrow> \<forall>g \<in> set gs. prev \<le> Group g \<Longrightarrow>
   GroupHeader h \<in> set (layout_from prev gs) \<Longrightarrow> prev < h"
proof (induction gs arbitrary: prev)
  case Nil
  then show ?case by simp
next
  case (Cons g gs)
  have le: "\<forall>g' \<in> set gs. Group g \<le> Group g'"
    using Cons.prems(1) by (auto intro: gr_key_le_Group)
  have pg: "prev \<le> Group g" using Cons.prems(2) by simp
  from Cons.prems(3) consider "Group g \<noteq> prev" "h = Group g"
    | "GroupHeader h \<in> set (layout_from (Group g) gs)"
    by (auto split: if_splits)
  then show ?case
  proof cases
    case 1
    then show ?thesis using pg by simp
  next
    case 2
    have "Group g < h" using Cons.IH [OF _ le 2] Cons.prems(1) by simp
    then show ?thesis using pg by simp
  qed
qed

lemma core_first:
  assumes "(name, res) \<in> set ra" and "Group (ParseGroupResource name) = ''''"
  shows "\<exists>g gs. sorted_groupResources ra = g # gs \<and> Group g = ''''"
proof -
  let ?gs = "sorted_groupResources ra"
  have "ParseGroupResource name \<in> set (map (\<lambda>(name, _). ParseGroupResource name) ra)"
    using assms(1) by force
  then have mem: "ParseGroupResource name \<in> set ?gs"
    using mset_sorted_groupResources [of ra] by (metis set_mset_mset)
  then obtain g gs where eq: "?gs = g # gs" by (cases ?gs) auto
  have "gr_key g \<le> gr_key (ParseGroupResource name)"
    using sorted_sorted_groupResources [of ra] mem unfolding eq by auto
  then have "Group g \<le> ''''" using assms(2) gr_key_le_Group by metis
  then have "Group g = ''''" by simp
  then show ?thesis using eq by blast
qed

section \<open>Keys and their group resources\<close>

text \<open>
  The split of \<^verbatim>\<open>schema.ParseGroupResource\<close> is the split at the first dot that the
  variant does with \<^verbatim>\<open>strings.Cut\<close>, and the two comparisons agree on the keys.
\<close>

lemma Cut_dot:
  "Cut name ''.'' =
     (if CHR ''.'' \<in> set name
      then (takeWhile (\<lambda>c. c \<noteq> CHR ''.'') name, tl (dropWhile (\<lambda>c. c \<noteq> CHR ''.'') name), True)
      else (name, '''', False))"
  by (induction name) auto

lemma ParseGroupResource_Cut:
  "ParseGroupResource name =
     (case Cut name ''.'' of (resource, group', _) \<Rightarrow> \<lparr>Group = group', Resource = resource\<rparr>)"
  by (simp add: Cut_dot ParseGroupResource_def)

lemma less_name_gr: "less_name x y = less_gr (ParseGroupResource x) (ParseGroupResource y)"
  by (auto simp: less_name_def less_gr_def Cut_dot ParseGroupResource_def)

text \<open>
  A key is the string of its group resource unless its first dot is its last character:
  \<open>pods.\<close> parses to the resource \<open>pods\<close> of the empty group, whose string is \<open>pods\<close>.
\<close>

lemma GroupResource_String_Parse:
  "GroupResource_String (ParseGroupResource name) = name \<longleftrightarrow>
     \<not> (CHR ''.'' \<in> set name \<and> Group (ParseGroupResource name) = '''')"
proof (cases "CHR ''.'' \<in> set name")
  case False
  then show ?thesis by (simp add: GroupResource_String_def ParseGroupResource_def)
next
  case True
  then obtain c rest where dw: "dropWhile (\<lambda>c. c \<noteq> CHR ''.'') name = c # rest"
    by (cases "dropWhile (\<lambda>c. c \<noteq> CHR ''.'') name") (auto simp: dropWhile_eq_Nil_conv)
  then have c: "c = CHR ''.''" using hd_dropWhile [of "\<lambda>c. c \<noteq> CHR ''.''" name] by force
  have split: "name = takeWhile (\<lambda>c. c \<noteq> CHR ''.'') name @ CHR ''.'' # rest"
    using takeWhile_dropWhile_id [of "\<lambda>c. c \<noteq> CHR ''.''" name] dw c by simp
  show ?thesis
  proof (cases "rest = []")
    case True
    have "takeWhile (\<lambda>c. c \<noteq> CHR ''.'') name \<noteq> name"
      using split by (metis append_self_conv list.distinct(1))
    then show ?thesis using \<open>CHR ''.'' \<in> set name\<close> True dw
      by (simp add: GroupResource_String_def ParseGroupResource_def)
  next
    case False
    then show ?thesis using \<open>CHR ''.'' \<in> set name\<close> dw split
      by (simp add: GroupResource_String_def ParseGroupResource_def)
  qed
qed

text \<open>
  For such a key of a map, the data row holds, verb by verb, the outcome of the access
  stored for the key, and the outcome of the zero value of \<^verbatim>\<open>Access\<close> for a verb without
  an entry.
\<close>

lemma data_row_entries:
  assumes "distinct (map fst ra)" and "(name, res) \<in> set ra"
    and "GroupResource_String (ParseGroupResource name) = name"
  shows "row_of uv zero ra verbs (DataRow (ParseGroupResource name)) =
     \<lparr>Intro = [Resource (ParseGroupResource name)],
      Entries = map (\<lambda>v. access_outcome (case res v of None \<Rightarrow> zero | Some a \<Rightarrow> a)) verbs\<rparr>"
proof -
  have "map_of ra name = Some res" using assms(1,2) by simp
  then show ?thesis
    using assms(3) by (simp add: ra_index_def verb_outcomes_def res_index_def)
qed

section \<open>The variant on renderable cells\<close>

lemma render_cells_Text:
  "render_cells env (Suc i) (map Text xs) = concat (map (\<lambda>s. TAB # s) xs)"
  by (induction xs arbitrary: i) (simp_all add: Text_def)

text \<open>
  The variant starts from \<^verbatim>\<open>lastGroup == ""\<close> without the test on the index: the core
  group gets no header, and every other group a spacer and a header.
\<close>

lemma Table_renderable_example:
  "Table_Render False ''ascii-table''
     (ResourceAccess_Table_renderable id NotApplicable example_ra [''get'', ''list'']) =
   Inr (''NAME'' @ [TAB] @ ''get'' @ [TAB] @ ''list'' @ [NL] @
        ''pods'' @ [TAB] @ ''yes'' @ [TAB] @ ''no'' @ [NL] @
        '' '' @ [TAB] @ ''n/a'' @ [NL] @
        ''apps:'' @ [TAB] @ ''n/a'' @ [NL] @
        ''pods'' @ [TAB] @ ''ERR'' @ [TAB] @ ''n/a'' @ [NL])"
  by (simp add: ResourceAccess_Table_renderable_def example_ra_def sort_Slice_def less_name_def
      TableWithHeaders_def AddRow_def TextList_def BoldText_def Bold_def Text_def
      ra_index_def verb_outcomes_def res_index_def Table_Render_def Outcome_Render_def
      asciiAccessCode_def outcome_defs)

section \<open>The claims on the table\<close>

text \<open>
  C1. The rows of the table that \<^verbatim>\<open>Table\<close> builds are the rows of the layout of the sorted
  group resources: a group header at the very first element and at every later change
  of group, each with a spacer before it except the very first, and one data row per
  element; so there are as many data rows as keys and, in a table that is not empty, one
  group header more than spacers. For the access result with \<open>pods\<close> (get allowed, list
  denied) and \<open>pods.apps\<close> (get in error) and the verbs get and list, in either order of
  the keys, the rows are: the header \<open>core:\<close>, the data row of pods, a spacer, the header
  \<open>apps:\<close>, the data row of pods; that is 2 group headers, 2 data rows and 1 spacer.
\<close>

theorem C1_group_headers:
  "Rows (ResourceAccess_Table toUpper zero ra verbs) =
     map (row_of (map toUpper verbs) zero ra verbs) (layout (sorted_groupResources ra)) \<and>
   length (filter is_DataRow (layout (sorted_groupResources ra))) = length ra \<and>
   length (filter is_GroupHeader (layout (sorted_groupResources ra))) =
     (if ra = [] then 0 else Suc (length (filter is_Spacer (layout (sorted_groupResources ra))))) \<and>
   layout (sorted_groupResources example_ra) =
     [GroupHeader '''', DataRow \<lparr>Group = '''', Resource = ''pods''\<rparr>,
      Spacer, GroupHeader ''apps'', DataRow \<lparr>Group = ''apps'', Resource = ''pods''\<rparr>] \<and>
   layout (sorted_groupResources (rev example_ra)) = layout (sorted_groupResources example_ra) \<and>
   length (filter is_GroupHeader (layout (sorted_groupResources example_ra))) = 2 \<and>
   length (filter is_DataRow (layout (sorted_groupResources example_ra))) = 2 \<and>
   length (filter is_Spacer (layout (sorted_groupResources example_ra))) = 1 \<and>
   Rows (ResourceAccess_Table toUpper zero example_ra [''get'', ''list'']) =
     [\<lparr>Intro = [''core:'', toUpper ''get'', toUpper ''list''], Entries = [None_outcome]\<rparr>,
      \<lparr>Intro = [''pods''], Entries = [Up, Down]\<rparr>,
      \<lparr>Intro = ['' ''], Entries = [None_outcome]\<rparr>,
      \<lparr>Intro = [''apps:'', toUpper ''get'', toUpper ''list''], Entries = [None_outcome]\<rparr>,
      \<lparr>Intro = [''pods''], Entries = [Err, access_outcome zero]\<rparr>] \<and>
   Rows (ResourceAccess_Table toUpper zero (rev example_ra) [''get'', ''list'']) =
     Rows (ResourceAccess_Table toUpper zero example_ra [''get'', ''list''])"
proof -
  have "length (filter is_DataRow (layout (sorted_groupResources ra))) = length ra"
    using count_layout [of "sorted_groupResources ra"]
    by (simp add: length_sorted_groupResources)
  moreover have "length (filter is_GroupHeader (layout (sorted_groupResources ra))) =
     (if ra = [] then 0 else Suc (length (filter is_Spacer (layout (sorted_groupResources ra)))))"
    using count_layout [of "sorted_groupResources ra"]
    by (simp add: sorted_groupResources_Nil)
  ultimately show ?thesis
    by (simp add: Table_rows_layout sorted_groupResources_example ra_index_example
        GroupResource_String_def verb_outcomes_def res_index_def)
qed

text \<open>
  C2. \<^verbatim>\<open>Table\<close> looks the outcomes of a data row up under the string of the parsed group
  resource, not under the key itself. At the access result with the keys \<open>pods.\<close> (get
  allowed) and \<open>pods\<close> (get denied), visited in either order, both data rows hold the
  outcome Down of the key \<open>pods\<close>, and the outcome Up stored for \<open>pods.\<close> is in no row; with
  the key \<open>pods.\<close> alone, its data row holds the outcome of the zero value of \<^verbatim>\<open>Access\<close>.
\<close>

theorem C2_trailing_dot_key:
  "Rows (ResourceAccess_Table toUpper zero
      [(''pods.'', [''get'' \<mapsto> Allowed]), (''pods'', [''get'' \<mapsto> Denied])] [''get'']) =
     [\<lparr>Intro = [''core:'', toUpper ''get''], Entries = [None_outcome]\<rparr>,
      \<lparr>Intro = [''pods''], Entries = [Down]\<rparr>,
      \<lparr>Intro = [''pods''], Entries = [Down]\<rparr>] \<and>
   Rows (ResourceAccess_Table toUpper zero
      [(''pods'', [''get'' \<mapsto> Denied]), (''pods.'', [''get'' \<mapsto> Allowed])] [''get'']) =
     [\<lparr>Intro = [''core:'', toUpper ''get''], Entries = [None_outcome]\<rparr>,
      \<lparr>Intro = [''pods''], Entries = [Down]\<rparr>,
      \<lparr>Intro = [''pods''], Entries = [Down]\<rparr>] \<and>
   Rows (ResourceAccess_Table toUpper zero [(''pods.'', [''get'' \<mapsto> Allowed])] [''get'']) =
     [\<lparr>Intro = [''core:'', toUpper ''get''], Entries = [None_outcome]\<rparr>,
      \<lparr>Intro = [''pods''], Entries = [access_outcome zero]\<rparr>]"
  by (simp add: Table_rows_layout sorted_groupResources_def sort_Slice_def
      ParseGroupResource_def less_gr_def GroupResource_String_def ra_index_def
      verb_outcomes_def res_index_def)

text \<open>
  C3. The data rows of the table, in their order, stand for the sorted group resources,
  which are the group resources parsed from the keys, each as often as it is parsed, in
  non-decreasing lexicographic order of the pair of group and resource, strings compared
  byte by byte.
\<close>

theorem C3_data_rows_sorted:
  "Rows (ResourceAccess_Table toUpper zero ra verbs) =
     map (row_of (map toUpper verbs) zero ra verbs) (layout (sorted_groupResources ra)) \<and>
   data_of (layout (sorted_groupResources ra)) = sorted_groupResources ra \<and>
   mset (sorted_groupResources ra) = mset (map (\<lambda>(name, _). ParseGroupResource name) ra) \<and>
   sorted (map (\<lambda>g. (Group g, Resource g)) (sorted_groupResources ra))"
  using sorted_sorted_groupResources [of ra]
  by (simp add: Table_rows_layout data_of_layout mset_sorted_groupResources gr_key_def [abs_def])

text \<open>
  C4. When a key of the access result parses to the empty group, the sort takes the
  group as it is, the empty string, which is the least: the sorted group resources
  start with one of the empty group. The layout starts with the header of that group
  and has no second one, and the first row of the table is that header, labelled
  \<open>core:\<close>, followed by the upper-cased verbs. No group header is labelled with the bare
  colon.
\<close>

theorem C4_core_label:
  assumes "(name, res) \<in> set ra" and "Group (ParseGroupResource name) = ''''"
  shows "(\<exists>g gs rest. sorted_groupResources ra = g # gs \<and> Group g = '''' \<and>
            layout (sorted_groupResources ra) = GroupHeader '''' # rest \<and>
            GroupHeader '''' \<notin> set rest) \<and>
         sorted (map (\<lambda>g. (Group g, Resource g)) (sorted_groupResources ra)) \<and>
         hd (Rows (ResourceAccess_Table toUpper zero ra verbs)) =
           \<lparr>Intro = ''core:'' # map toUpper verbs, Entries = [None_outcome]\<rparr> \<and>
         row_of (map toUpper verbs) zero ra verbs (GroupHeader '''') =
           \<lparr>Intro = ''core:'' # map toUpper verbs, Entries = [None_outcome]\<rparr> \<and>
         hd (Intro (row_of (map toUpper verbs) zero ra verbs (GroupHeader grp))) \<noteq> '':''"
proof -
  let ?gs = "sorted_groupResources ra"
  obtain g gs where eq: "?gs = g # gs" and g: "Group g = ''''"
    using core_first [OF assms] by blast
  have srt: "sorted (map gr_key (g # gs))"
    using sorted_sorted_groupResources [of ra] unfolding eq .
  have le: "\<forall>g' \<in> set gs. '''' \<le> Group g'" by simp
  have no: "GroupHeader '''' \<notin> set (layout_from '''' gs)"
  proof
    assume "GroupHeader '''' \<in> set (layout_from '''' gs)"
    from header_in_layout_from [OF _ le this] srt show False by simp
  qed
  have lay: "layout ?gs = GroupHeader '''' # DataRow g # layout_from '''' gs"
    unfolding eq using g by simp
  have a: "\<exists>g gs rest. sorted_groupResources ra = g # gs \<and> Group g = '''' \<and>
            layout (sorted_groupResources ra) = GroupHeader '''' # rest \<and>
            GroupHeader '''' \<notin> set rest"
    using eq g lay no by auto
  have b: "sorted (map (\<lambda>g. (Group g, Resource g)) (sorted_groupResources ra))"
    using sorted_sorted_groupResources [of ra] by (simp add: gr_key_def [abs_def])
  have c: "hd (Rows (ResourceAccess_Table toUpper zero ra verbs)) =
           \<lparr>Intro = ''core:'' # map toUpper verbs, Entries = [None_outcome]\<rparr>"
    by (simp add: Table_rows_layout lay)
  have d: "hd (Intro (row_of (map toUpper verbs) zero ra verbs (GroupHeader grp))) \<noteq> '':''"
    by simp
  show ?thesis using a b c d by simp
qed

theorem C4_core_label_witness:
  "hd (Rows (ResourceAccess_Table id NotApplicable example_ra [''get'', ''list''])) =
     \<lparr>Intro = [''core:'', ''get'', ''list''], Entries = [None_outcome]\<rparr> \<and>
   Group (ParseGroupResource ''pods'') = ''''"
  using C4_core_label [of "''pods''" "[''get'' \<mapsto> Allowed, ''list'' \<mapsto> Denied]" example_ra
      id NotApplicable "[''get'', ''list'']"]
  by (simp add: example_ra_def ParseGroupResource_def)

text \<open>
  C9. For the empty access result and any verbs, \<^verbatim>\<open>Table\<close> gives a table without rows, so
  without group headers, spacers and data rows; in the variant on renderable cells the
  table has the header row \<open>NAME\<close> and the upper-cased verbs, and no rows. \<^verbatim>\<open>Table.Render\<close>
  of a table without rows prints the line of the header cells and nothing else.
\<close>

theorem C9_empty_table:
  "ResourceAccess_Table toUpper zero [] verbs = \<lparr>Headers = [], Rows = []\<rparr> \<and>
   layout (sorted_groupResources []) = [] \<and>
   ResourceAccess_Table_renderable toUpper zero [] verbs =
     \<lparr>Headers = Text ''NAME'' # map (\<lambda>v. Text (toUpper v)) verbs, Rows = []\<rparr> \<and>
   Table_Render t f \<lparr>Headers = hs, Rows = []\<rparr> =
     Inr (render_cells \<lparr>IsTerminal = t, OutputFormat = f\<rparr> 0 hs @ [NL]) \<and>
   Table_Render t f (ResourceAccess_Table_renderable toUpper zero [] verbs) =
     Inr (''NAME'' @ concat (map (\<lambda>v. TAB # toUpper v) verbs) @ [NL])"
proof -
  have "map (\<lambda>v. Text (toUpper v)) verbs = map Text (map toUpper verbs)" by simp
  then have "render_cells env (Suc 0) (map (\<lambda>v. Text (toUpper v)) verbs) =
      concat (map (\<lambda>v. TAB # toUpper v) verbs)" for env
    by (simp only: render_cells_Text) (simp add: comp_def)
  then show ?thesis
    by (simp add: ResourceAccess_Table_def ResourceAccess_Table_renderable_def
        sorted_groupResources_def sort_Slice_def TableWithHeaders_def Table_Render_def Text_def)
qed

text \<open>
  C10 (amended). Row by row, the outcome entries of the table are the single outcome None
  for a spacer and for a group header, however many verbs there are, and the outcomes of
  the verbs, as many as there are verbs, for a data row. Two rows of the table differ in
  their number of entries exactly when the access result is not empty and the number of
  verbs is not one.
\<close>

theorem C10_single_entry_rows:
  "map Entries (Rows (ResourceAccess_Table toUpper zero ra verbs)) =
     map (\<lambda>k. case k of
                 DataRow g \<Rightarrow> verb_outcomes zero (ra_index ra (GroupResource_String g)) verbs
               | _ \<Rightarrow> [None_outcome])
         (layout (sorted_groupResources ra)) \<and>
   length (verb_outcomes zero res verbs) = length verbs \<and>
   (\<exists>r1 \<in> set (Rows (ResourceAccess_Table toUpper zero ra verbs)).
    \<exists>r2 \<in> set (Rows (ResourceAccess_Table toUpper zero ra verbs)).
      length (Entries r1) \<noteq> length (Entries r2)) = (ra \<noteq> [] \<and> length verbs \<noteq> 1)"
proof -
  let ?T = "ResourceAccess_Table toUpper zero ra verbs"
  let ?gs = "sorted_groupResources ra"
  let ?row = "row_of (map toUpper verbs) zero ra verbs"
  have rows: "Rows ?T = map ?row (layout ?gs)" by (rule Table_rows_layout)
  have a: "map Entries (Rows ?T) =
     map (\<lambda>k. case k of
                 DataRow g \<Rightarrow> verb_outcomes zero (ra_index ra (GroupResource_String g)) verbs
               | _ \<Rightarrow> [None_outcome])
         (layout ?gs)"
    unfolding rows by (simp add: Entries_row_of)
  have c: "(\<exists>r1 \<in> set (Rows ?T). \<exists>r2 \<in> set (Rows ?T).
      length (Entries r1) \<noteq> length (Entries r2)) = (ra \<noteq> [] \<and> length verbs \<noteq> 1)"
  proof
    assume "\<exists>r1 \<in> set (Rows ?T). \<exists>r2 \<in> set (Rows ?T). length (Entries r1) \<noteq> length (Entries r2)"
    then obtain k1 k2 where k: "k1 \<in> set (layout ?gs)" "k2 \<in> set (layout ?gs)"
      "length (Entries (?row k1)) \<noteq> length (Entries (?row k2))"
      unfolding rows by auto
    have "ra \<noteq> []"
    proof
      assume "ra = []"
      then have "?gs = []" by (simp add: sorted_groupResources_Nil)
      then show False using k(1) by simp
    qed
    moreover have "length verbs \<noteq> 1"
      using k(3) by (auto simp: length_Entries_row_of split: if_splits)
    ultimately show "ra \<noteq> [] \<and> length verbs \<noteq> 1" by simp
  next
    assume h: "ra \<noteq> [] \<and> length verbs \<noteq> 1"
    then have "?gs \<noteq> []" by (simp add: sorted_groupResources_Nil)
    then obtain g gs where eq: "?gs = g # gs" by (cases ?gs) auto
    have "?row (GroupHeader (Group g)) \<in> set (Rows ?T)" "?row (DataRow g) \<in> set (Rows ?T)"
      unfolding rows eq by simp_all
    moreover have "length (Entries (?row (GroupHeader (Group g)))) \<noteq>
        length (Entries (?row (DataRow g)))"
      using h by (simp add: length_verb_outcomes)
    ultimately show "\<exists>r1 \<in> set (Rows ?T). \<exists>r2 \<in> set (Rows ?T).
        length (Entries r1) \<noteq> length (Entries r2)"
      by blast
  qed
  show ?thesis using a c by (simp add: length_verb_outcomes)
qed

text \<open>
  The claim as it was stated, that the rows of a table never all have the same number of
  outcome entries, fails with a single verb: the header and the data row have one each.
\<close>

theorem C10_single_verb_counterexample:
  "Rows (ResourceAccess_Table id NotApplicable [(''pods'', [''get'' \<mapsto> Allowed])] [''get'']) =
     [\<lparr>Intro = [''core:'', ''get''], Entries = [None_outcome]\<rparr>,
      \<lparr>Intro = [''pods''], Entries = [Up]\<rparr>]"
  by (simp add: Table_rows_layout sorted_groupResources_def sort_Slice_def
      ParseGroupResource_def GroupResource_String_def ra_index_def
      verb_outcomes_def res_index_def)

end
